theory Spec2Isabelle
  imports Main
begin

section \<open>Python values handled by the bridge\<close>

text \<open>
  The bridge (\<^verbatim>\<open>src/resources/jupyter/bridge.py\<close>) only handles values that
  \<^verbatim>\<open>json.loads\<close> produces or that \<^verbatim>\<open>jupyter_client\<close> hands over as message fields:
  \<^verbatim>\<open>None\<close>, booleans, integers, strings, lists and dictionaries. A dictionary is an
  association list (insertion order is kept, as in Python; a key is looked up at its
  first occurrence). Non-integer numbers are left out: no operation of the bridge looks
  inside a number.
\<close>

datatype json =
    JNull
  | JBool bool
  | JInt int
  | JStr string
  | JList "json list"
  | JObj "(string \<times> json) list"

type_synonym dict = "(string \<times> json) list"

text \<open>Python truthiness, as used by \<^verbatim>\<open>if parent_id:\<close>.\<close>

fun truthy :: "json \<Rightarrow> bool" where
  "truthy JNull = False"
| "truthy (JBool b) = b"
| "truthy (JInt i) = (i \<noteq> 0)"
| "truthy (JStr s) = (s \<noteq> [])"
| "truthy (JList xs) = (xs \<noteq> [])"
| "truthy (JObj d) = (d \<noteq> [])"

text \<open>
  Exceptions. \<open>AttributeError\<close> and \<open>TypeError\<close> are raised by the bridge's own
  operations on a value of the wrong type (\<^verbatim>\<open>.get\<close> on something that is not a
  dictionary, \<^verbatim>\<open>"".join\<close> over something that is not a string, an unhashable
  dictionary key). The other two are raised by the kernel library and carry
  \<^verbatim>\<open>type(e).__name__\<close> and \<^verbatim>\<open>str(e)\<close>: \<open>RuntimeError\<close> stands for an instance of
  Python's RuntimeError (what \<^verbatim>\<open>except RuntimeError\<close> catches), \<open>EOFError\<close> for
  Python's EOFError (which the handler around the read loop catches), \<open>Exception\<close> for
  any other instance of Python's Exception. Exceptions outside Python's Exception class
  (KeyboardInterrupt, SystemExit) are not modelled.
\<close>

datatype exn =
    AttributeError
  | TypeError
  | EOFError string
  | RuntimeError string string
  | Exception string string

fun ename_of :: "exn \<Rightarrow> string" where
  "ename_of AttributeError = ''AttributeError''"
| "ename_of TypeError = ''TypeError''"
| "ename_of (EOFError m) = ''EOFError''"
| "ename_of (RuntimeError n m) = n"
| "ename_of (Exception n m) = n"

fun str_of :: "exn \<Rightarrow> string" where
  "str_of AttributeError = ''object has no attribute get''"
| "str_of TypeError = ''bad operand type''"
| "str_of (EOFError m) = m"
| "str_of (RuntimeError n m) = m"
| "str_of (Exception n m) = m"

text \<open>\<^verbatim>\<open>d.get(k, dflt)\<close> on a dictionary, and on an arbitrary value.\<close>

definition dict_get :: "dict \<Rightarrow> string \<Rightarrow> json \<Rightarrow> json" where
  "dict_get d k dflt = (case map_of d k of None \<Rightarrow> dflt | Some v \<Rightarrow> v)"

fun py_get :: "json \<Rightarrow> string \<Rightarrow> json \<Rightarrow> exn + json" where
  "py_get (JObj d) k dflt = Inr (dict_get d k dflt)"
| "py_get v k dflt = Inl AttributeError"

text \<open>\<^verbatim>\<open>d[k] = v\<close>: overwrite in place, or append a new key.\<close>

fun dict_set :: "string \<Rightarrow> json \<Rightarrow> dict \<Rightarrow> dict" where
  "dict_set k v [] = [(k, v)]"
| "dict_set k v ((k', v') # d) =
     (if k' = k then (k, v) # d else (k', v') # dict_set k v d)"

text \<open>\<^verbatim>\<open>"".join(v)\<close> for a list \<open>v\<close>: every item must be a string.\<close>

fun join :: "json list \<Rightarrow> exn + string" where
  "join [] = Inr []"
| "join (JStr s # xs) = (case join xs of Inl e \<Rightarrow> Inl e | Inr r \<Rightarrow> Inr (s @ r))"
| "join (x # xs) = Inl TypeError"

text \<open>
  \<^verbatim>\<open>line.strip()\<close>: whitespace is removed at both ends. The whitespace characters are
  the ASCII ones of \<^verbatim>\<open>str.isspace\<close>.
\<close>

definition isspace :: "char \<Rightarrow> bool" where
  "isspace c = (c \<in> set [CHR '' '', CHR 0x09, CHR 0x0A, CHR 0x0B, CHR 0x0C, CHR 0x0D,
                           CHR 0x1C, CHR 0x1D, CHR 0x1E, CHR 0x1F])"

definition strip :: "string \<Rightarrow> string" where
  "strip s = rev (dropWhile isspace (rev (dropWhile isspace s)))"

section \<open>Shared state: correlation table and outbound stream\<close>

text \<open>
  \<^verbatim>\<open>_msg_map\<close> maps a kernel message id to a request id. \<open>out\<close> is the outbound
  stream: the objects passed to \<^verbatim>\<open>emit\<close>, one JSON line each, in the order in which
  the lock was taken. \<open>calls\<close> records the requests made to the kernel library
  by the dispatcher, by the teardown and by the readiness handshake.
\<close>

datatype kcall =
    Execute json
  | InterruptKernel
  | RestartKernel
  | WaitForReady nat
  | StopChannels
  | ShutdownKernel

record bridge =
  msg_map :: "string \<rightharpoonup> json"
  out :: "json list"
  calls :: "kcall list"

definition init :: bridge where
  "init = \<lparr>msg_map = Map.empty, out = [], calls = []\<rparr>"

definition emit :: "json \<Rightarrow> bridge \<Rightarrow> bridge" where
  "emit obj s = s\<lparr>out := out s @ [obj]\<rparr>"

definition called :: "kcall \<Rightarrow> bridge \<Rightarrow> bridge" where
  "called c s = s\<lparr>calls := calls s @ [c]\<rparr>"

definition register_msg :: "string \<Rightarrow> json \<Rightarrow> bridge \<Rightarrow> bridge" where
  "register_msg msg_id req_id s = s\<lparr>msg_map := (msg_map s)(msg_id \<mapsto> req_id)\<rparr>"

text \<open>
  \<^verbatim>\<open>get_req_id(msg)\<close>. \<^verbatim>\<open>_msg_map.get(parent_id)\<close> gives \<^verbatim>\<open>None\<close> for a key that is
  not in the table (the keys are strings, so any hashable key that is not a string is
  not in it) and raises TypeError for an unhashable key.
\<close>

definition get_req_id :: "(string \<rightharpoonup> json) \<Rightarrow> dict \<Rightarrow> exn + json" where
  "get_req_id tbl msg =
     (case py_get (dict_get msg ''parent_header'' (JObj [])) ''msg_id'' JNull of
        Inl e \<Rightarrow> Inl e
      | Inr parent_id \<Rightarrow>
          if truthy parent_id then
            (case parent_id of
               JStr p \<Rightarrow> Inr (case tbl p of None \<Rightarrow> JNull | Some r \<Rightarrow> r)
             | JList xs \<Rightarrow> Inl TypeError
             | JObj d \<Rightarrow> Inl TypeError
             | _ \<Rightarrow> Inr JNull)
          else Inr JNull)"

section \<open>Event Relay\<close>

text \<open>
  \<^verbatim>\<open>"".join(v) if isinstance(v, list) else v\<close>, and the loop that builds
  \<^verbatim>\<open>flat_data\<close> from \<^verbatim>\<open>data.items()\<close>.
\<close>

fun flatten_value :: "json \<Rightarrow> exn + json" where
  "flatten_value (JList xs) = (case join xs of Inl e \<Rightarrow> Inl e | Inr s \<Rightarrow> Inr (JStr s))"
| "flatten_value v = Inr v"

fun flatten_items :: "dict \<Rightarrow> dict \<Rightarrow> exn + dict" where
  "flatten_items [] flat_data = Inr flat_data"
| "flatten_items ((k, v) # items) flat_data =
     (case flatten_value v of
        Inl e \<Rightarrow> Inl e
      | Inr w \<Rightarrow> flatten_items items (dict_set k w flat_data))"

definition flatten_data :: "json \<Rightarrow> exn + json" where
  "flatten_data data =
     (case data of
        JObj items \<Rightarrow> (case flatten_items items [] of Inl e \<Rightarrow> Inl e | Inr fd \<Rightarrow> Inr (JObj fd))
      | _ \<Rightarrow> Inl AttributeError)"

text \<open>
  The body of the loop of \<^verbatim>\<open>iopub_listener\<close> after a message has been received
  (lines 156 to 199): the object passed to \<^verbatim>\<open>emit\<close>, \<open>None\<close> when nothing is
  emitted, or the exception that escapes. Every exception is raised before \<^verbatim>\<open>emit\<close>
  is reached.
\<close>

definition relay_event :: "(string \<rightharpoonup> json) \<Rightarrow> dict \<Rightarrow> exn + json option" where
  "relay_event tbl msg =
     (let msg_type = dict_get msg ''msg_type'' (JStr '''');
          content = dict_get msg ''content'' (JObj [])
      in case get_req_id tbl msg of
        Inl e \<Rightarrow> Inl e
      | Inr req_id \<Rightarrow>
          if msg_type = JStr ''stream'' then
            (case py_get content ''name'' (JStr ''stdout'') of
               Inl e \<Rightarrow> Inl e
             | Inr name \<Rightarrow>
                 (case py_get content ''text'' (JStr '''') of
                    Inl e \<Rightarrow> Inl e
                  | Inr text \<Rightarrow>
                      Inr (Some (JObj [(''id'', req_id), (''type'', JStr ''stream''),
                                       (''name'', name), (''text'', text)]))))
          else if msg_type = JStr ''execute_result'' \<or> msg_type = JStr ''display_data'' then
            (case py_get content ''data'' (JObj []) of
               Inl e \<Rightarrow> Inl e
             | Inr data \<Rightarrow>
                 (case flatten_data data of
                    Inl e \<Rightarrow> Inl e
                  | Inr flat_data \<Rightarrow>
                      let outd = [(''id'', req_id), (''type'', msg_type), (''data'', flat_data)]
                      in if msg_type = JStr ''execute_result'' then
                           (case py_get content ''execution_count'' JNull of
                              Inl e \<Rightarrow> Inl e
                            | Inr n \<Rightarrow> Inr (Some (JObj (dict_set ''execution_count'' n outd))))
                         else Inr (Some (JObj outd))))
          else if msg_type = JStr ''error'' then
            (case py_get content ''ename'' (JStr ''Error'') of
               Inl e \<Rightarrow> Inl e
             | Inr en \<Rightarrow>
                 (case py_get content ''evalue'' (JStr '''') of
                    Inl e \<Rightarrow> Inl e
                  | Inr ev \<Rightarrow>
                      (case py_get content ''traceback'' (JList []) of
                         Inl e \<Rightarrow> Inl e
                       | Inr tb \<Rightarrow>
                           Inr (Some (JObj [(''id'', req_id), (''type'', JStr ''error''),
                                            (''ename'', en), (''evalue'', ev),
                                            (''traceback'', tb)])))))
          else if msg_type = JStr ''status'' then
            (case py_get content ''execution_state'' (JStr '''') of
               Inl e \<Rightarrow> Inl e
             | Inr state \<Rightarrow>
                 if state = JStr ''idle'' \<or> state = JStr ''busy'' then
                   Inr (Some (JObj [(''id'', req_id), (''type'', JStr ''status''),
                                    (''state'', state)]))
                 else Inr None)
          else Inr None)"

text \<open>
  One cycle of \<^verbatim>\<open>while not stop_event.is_set()\<close>. The inputs of a cycle are what the
  relay observes: whether the stop event is set, and what the poll
  \<^verbatim>\<open>kc.get_iopub_msg(timeout=0.5)\<close> does: it raises (a timeout is the exception
  \<^verbatim>\<open>queue.Empty\<close>) or it returns a message, which is a dictionary.
\<close>

datatype poll = PollRaised | Received dict

datatype relay = Polling bridge | Exited bridge | Died exn bridge

definition iopub_cycle :: "bool \<Rightarrow> poll \<Rightarrow> bridge \<Rightarrow> relay" where
  "iopub_cycle stop_is_set p s =
     (if stop_is_set then Exited s
      else case p of
        PollRaised \<Rightarrow> Polling s
      | Received msg \<Rightarrow>
          (case relay_event (msg_map s) msg of
             Inl e \<Rightarrow> Died e s
           | Inr None \<Rightarrow> Polling s
           | Inr (Some obj) \<Rightarrow> Polling (emit obj s)))"


section \<open>Command Dispatcher\<close>

text \<open>
  What the kernel library does when it is called during one step of the dispatcher:
  \<^verbatim>\<open>kc.execute(code)\<close> returns the kernel message id or raises; the other calls
  return nothing or raise. A theorem that holds for every such record holds whatever
  the kernel does.
\<close>

record kernel =
  execute :: "json \<Rightarrow> exn + string"
  interrupt_kernel :: "exn option"
  restart_kernel :: "exn option"
  wait_for_ready :: "nat \<Rightarrow> exn option"
  stop_channels :: "exn option"
  shutdown_kernel :: "exn option"

datatype outcome = Continue bridge | Break bridge | Uncaught exn bridge

text \<open>
  Lines 87 to 115: the dispatch of one parsed request \<open>req\<close>, which is whatever
  \<^verbatim>\<open>json.loads\<close> returned. \<^verbatim>\<open>req.get\<close> raises AttributeError when \<open>req\<close> is not a
  dictionary, and nothing in the loop catches it.
\<close>

definition error_response :: "json \<Rightarrow> string \<Rightarrow> exn \<Rightarrow> json" where
  "error_response req_id en e =
     JObj [(''id'', req_id), (''type'', JStr ''error''), (''ename'', JStr en),
           (''evalue'', JStr (str_of e)), (''traceback'', JList [])]"

definition dispatch :: "kernel \<Rightarrow> json \<Rightarrow> bridge \<Rightarrow> outcome" where
  "dispatch k req s =
     (case py_get req ''id'' JNull of
        Inl e \<Rightarrow> Uncaught e s
      | Inr req_id \<Rightarrow>
     (case py_get req ''action'' JNull of
        Inl e \<Rightarrow> Uncaught e s
      | Inr action \<Rightarrow>
          if action = JStr ''execute'' then
            (case py_get req ''code'' (JStr '''') of
               Inl e \<Rightarrow> Uncaught e s
             | Inr code \<Rightarrow>
                 (case execute k code of
                    Inl e \<Rightarrow> Uncaught e (called (Execute code) s)
                  | Inr msg_id \<Rightarrow>
                      Continue (register_msg msg_id req_id (called (Execute code) s))))
          else if action = JStr ''interrupt'' then
            (case interrupt_kernel k of
               None \<Rightarrow> Continue (called InterruptKernel s)
             | Some e \<Rightarrow>
                 Continue (emit (error_response req_id ''InterruptError'' e)
                                (called InterruptKernel s)))
          else if action = JStr ''restart'' then
            (case restart_kernel k of
               Some e \<Rightarrow>
                 Continue (emit (error_response req_id ''RestartError'' e)
                                (called RestartKernel s))
             | None \<Rightarrow>
                 (case wait_for_ready k 30 of
                    Some e \<Rightarrow>
                      Continue (emit (error_response req_id ''RestartError'' e)
                                     (called (WaitForReady 30) (called RestartKernel s)))
                  | None \<Rightarrow>
                      Continue (emit (JObj [(''id'', req_id), (''type'', JStr ''status''),
                                            (''state'', JStr ''restarted'')])
                                     (called (WaitForReady 30) (called RestartKernel s)))))
          else if action = JStr ''shutdown'' then Break s
          else Continue s))"

text \<open>
  Lines 79 to 115: one iteration of \<^verbatim>\<open>for line in sys.stdin\<close>. \<open>loads\<close> is
  \<^verbatim>\<open>json.loads\<close>, with \<open>None\<close> for JSONDecodeError.
\<close>

definition read_line :: "(string \<Rightarrow> json option) \<Rightarrow> kernel \<Rightarrow> string \<Rightarrow> bridge \<Rightarrow> outcome" where
  "read_line loads k line s =
     (if strip line = [] then Continue s
      else case loads (strip line) of
        None \<Rightarrow> Continue s
      | Some req \<Rightarrow> dispatch k req s)"

text \<open>
  The read loop over the lines of the inbound stream, each with what the kernel does
  while it is handled; the stream ends after the last one.
\<close>

datatype loop_exit = EndOfInput bridge | ShutdownAction bridge | Escaped exn bridge

fun read_loop :: "(string \<Rightarrow> json option) \<Rightarrow> (string \<times> kernel) list \<Rightarrow> bridge \<Rightarrow> loop_exit" where
  "read_loop loads [] s = EndOfInput s"
| "read_loop loads ((line, k) # rest) s =
     (case read_line loads k line s of
        Continue s' \<Rightarrow> read_loop loads rest s'
      | Break s' \<Rightarrow> ShutdownAction s'
      | Uncaught e s' \<Rightarrow> Escaped e s')"

text \<open>
  The \<^verbatim>\<open>finally\<close> block (lines 119 to 125), after \<^verbatim>\<open>stop_event.set()\<close>: teardown
  errors are swallowed.
\<close>

definition teardown :: "kernel \<Rightarrow> bridge \<Rightarrow> bridge" where
  "teardown k s =
     (case stop_channels k of
        Some e \<Rightarrow> called StopChannels s
      | None \<Rightarrow> called ShutdownKernel (called StopChannels s))"

section \<open>Lifecycle Controller: startup\<close>

text \<open>
  Lines 22 to 67. The environment says whether the two imports succeed and what the
  calls that have a handler do: \<^verbatim>\<open>km.start_kernel()\<close>,
  \<^verbatim>\<open>kc.wait_for_ready(timeout=30)\<close>, \<^verbatim>\<open>km.shutdown_kernel(now=True)\<close> in the handler
  of the latter, and \<^verbatim>\<open>kc.get_shell_msg(timeout=10)\<close>. The calls without a handler
  (the constructor, \<^verbatim>\<open>km.client()\<close>, \<^verbatim>\<open>kc.start_channels()\<close>, \<^verbatim>\<open>kc.kernel_info()\<close>)
  are taken to return.
\<close>

record environment =
  jupyter_client_installed :: bool
  ipykernel_installed :: bool
  start_kernel :: "exn option"
  ready_within :: "nat \<Rightarrow> exn option"
  shutdown_now :: "exn option"
  get_shell_msg :: "nat \<Rightarrow> exn + json"

text \<open>
  \<open>Ready\<close>: the handshake succeeded and the program goes on to the loops.
  \<open>Exit n\<close>: \<^verbatim>\<open>sys.exit(n)\<close>. \<open>Traceback e\<close>: an exception escaped \<^verbatim>\<open>main\<close>; Python
  prints the traceback and the exit status is 1.
\<close>

datatype started = Ready bridge | Exit nat bridge | Traceback exn bridge

fun exit_status :: "started \<Rightarrow> nat option" where
  "exit_status (Ready s) = None"
| "exit_status (Exit n s) = Some n"
| "exit_status (Traceback e s) = Some 1"

fun started_bridge :: "started \<Rightarrow> bridge" where
  "started_bridge (Ready s) = s"
| "started_bridge (Exit n s) = s"
| "started_bridge (Traceback e s) = s"

definition startup_error :: "string \<Rightarrow> string \<Rightarrow> json" where
  "startup_error en ev =
     JObj [(''type'', JStr ''error''), (''ename'', JStr en), (''evalue'', JStr ev),
           (''traceback'', JList [])]"

text \<open>Lines 62 to 66: the language name, with every exception swallowed.\<close>

definition language_of :: "exn + json \<Rightarrow> json" where
  "language_of r =
     (case r of
        Inl e \<Rightarrow> JStr ''python''
      | Inr reply \<Rightarrow>
          (case py_get reply ''content'' (JObj []) of
             Inl e \<Rightarrow> JStr ''python''
           | Inr c \<Rightarrow>
               (case py_get c ''language_info'' (JObj []) of
                  Inl e \<Rightarrow> JStr ''python''
                | Inr li \<Rightarrow>
                    (case py_get li ''name'' (JStr ''python'') of
                       Inl e \<Rightarrow> JStr ''python''
                     | Inr name \<Rightarrow> name))))"

definition startup :: "environment \<Rightarrow> started" where
  "startup env =
     (if \<not> jupyter_client_installed env then
        Exit 1 (emit (startup_error ''ImportError''
          ''jupyter_client not installed. Run: pip install jupyter ipykernel'') init)
      else if \<not> ipykernel_installed env then
        Exit 1 (emit (startup_error ''ImportError''
          ''ipykernel not installed. Run: pip install ipykernel'') init)
      else case start_kernel env of
        Some e \<Rightarrow> Exit 1 (emit (startup_error (ename_of e) (str_of e)) init)
      | None \<Rightarrow>
          (case ready_within env 30 of
             Some (RuntimeError n m) \<Rightarrow>
               (case shutdown_now env of
                  None \<Rightarrow>
                    Exit 1 (called ShutdownKernel
                      (emit (startup_error ''KernelTimeout'' m) (called (WaitForReady 30) init)))
                | Some e' \<Rightarrow>
                    Traceback e' (called ShutdownKernel
                      (emit (startup_error ''KernelTimeout'' m) (called (WaitForReady 30) init))))
           | Some e \<Rightarrow> Traceback e (called (WaitForReady 30) init)
           | None \<Rightarrow>
               Ready (emit (JObj [(''type'', JStr ''ready''),
                                  (''language'', language_of (get_shell_msg env 10))])
                           (called (WaitForReady 30) init))))"

section \<open>The two loops on the shared state\<close>

text \<open>
  After startup the main thread runs the read loop and the relay thread runs
  \<^verbatim>\<open>iopub_listener\<close>, both on the same correlation table and outbound stream. A run of
  the program is a sequence of steps, each taken by one of the two threads: the main
  thread reads a line or meets the end of the inbound stream, the relay thread does one
  cycle. Registration and lookup are each done under \<^verbatim>\<open>_msg_map_lock\<close>, and each
  \<^verbatim>\<open>emit\<close> under \<^verbatim>\<open>_emit_lock\<close>, so a step is taken as a whole. When the read loop is
  left, the \<^verbatim>\<open>finally\<close> block sets the stop event and tears the kernel down; an
  EOFError is swallowed by the handler around the loop.
\<close>

datatype thread = Alive | Returned | Raised exn

record system =
  shared :: bridge
  stop_event :: bool
  main_thread :: thread
  iopub_thread :: thread

datatype step = Stdin string kernel | Eof kernel | Cycle poll

definition leave_loop :: "kernel \<Rightarrow> exn option \<Rightarrow> bridge \<Rightarrow> system \<Rightarrow> system" where
  "leave_loop k raised s sys =
     sys\<lparr>shared := teardown k s, stop_event := True,
         main_thread := (case raised of
                           None \<Rightarrow> Returned
                         | Some (EOFError m) \<Rightarrow> Returned
                         | Some e \<Rightarrow> Raised e)\<rparr>"

fun do_step :: "(string \<Rightarrow> json option) \<Rightarrow> step \<Rightarrow> system \<Rightarrow> system" where
  "do_step loads (Stdin line k) sys =
     (if main_thread sys \<noteq> Alive then sys
      else case read_line loads k line (shared sys) of
        Continue s' \<Rightarrow> sys\<lparr>shared := s'\<rparr>
      | Break s' \<Rightarrow> leave_loop k None s' sys
      | Uncaught e s' \<Rightarrow> leave_loop k (Some e) s' sys)"
| "do_step loads (Eof k) sys =
     (if main_thread sys \<noteq> Alive then sys
      else leave_loop k None (shared sys) sys)"
| "do_step loads (Cycle p) sys =
     (if iopub_thread sys \<noteq> Alive then sys
      else case iopub_cycle (stop_event sys) p (shared sys) of
        Polling s' \<Rightarrow> sys\<lparr>shared := s'\<rparr>
      | Exited s' \<Rightarrow> sys\<lparr>shared := s', iopub_thread := Returned\<rparr>
      | Died e s' \<Rightarrow> sys\<lparr>shared := s', iopub_thread := Raised e\<rparr>)"

fun run :: "(string \<Rightarrow> json option) \<Rightarrow> step list \<Rightarrow> system \<Rightarrow> system" where
  "run loads [] sys = sys"
| "run loads (st # sts) sys = run loads sts (do_step loads st sys)"

definition running :: "bridge \<Rightarrow> system" where
  "running s = \<lparr>shared = s, stop_event = False, main_thread = Alive, iopub_thread = Alive\<rparr>"

section \<open>Notions used in the statements\<close>


text \<open>The bridge state a relay cycle, a dispatch and the read loop end in.\<close>

fun bridge_of :: "relay \<Rightarrow> bridge" where
  "bridge_of (Polling s) = s"
| "bridge_of (Exited s) = s"
| "bridge_of (Died e s) = s"

fun after :: "outcome \<Rightarrow> bridge" where
  "after (Continue s) = s"
| "after (Break s) = s"
| "after (Uncaught e s) = s"


text \<open>
  Examples used below: a kernel library that answers every call and returns the
  message id \<open>mid\<close>; an environment in which startup succeeds; a status event.
\<close>

definition kernel_ok :: "string \<Rightarrow> kernel" where
  "kernel_ok mid =
     \<lparr>execute = (\<lambda>code. Inr mid), interrupt_kernel = None, restart_kernel = None,
      wait_for_ready = (\<lambda>t. None), stop_channels = None, shutdown_kernel = None\<rparr>"

definition env_ok :: environment where
  "env_ok =
     \<lparr>jupyter_client_installed = True, ipykernel_installed = True, start_kernel = None,
      ready_within = (\<lambda>t. None), shutdown_now = None,
      get_shell_msg = (\<lambda>t. Inr (JObj [(''content'',
         JObj [(''language_info'', JObj [(''name'', JStr ''python'')])])]))\<rparr>"


text \<open>
  A fragment of \<^verbatim>\<open>json.loads\<close>: what it returns on the lines used in the examples below,
  and JSONDecodeError on every other line. A stream event.
\<close>

definition loads_example :: "string \<Rightarrow> json option" where
  \<open>loads_example l =
     (if l = ''5'' then Some (JInt 5)
      else if l = ''[]'' then Some (JList [])
      else if l = ''{"action":"execute","code":"1+1"}'' then
        Some (JObj [(''action'', JStr ''execute''), (''code'', JStr ''1+1'')])
      else if l = ''{"id":"r1","action":"execute","code":"1+1"}'' then
        Some (JObj [(''id'', JStr ''r1''), (''action'', JStr ''execute''), (''code'', JStr ''1+1'')])
      else if l = ''{"id":"r2","action":"bogus"}'' then
        Some (JObj [(''id'', JStr ''r2''), (''action'', JStr ''bogus'')])
      else None)\<close>

definition stream_event :: "string \<Rightarrow> string \<Rightarrow> dict" where
  "stream_event mid txt =
     [(''msg_type'', JStr ''stream''),
      (''content'', JObj [(''name'', JStr ''stdout''), (''text'', JStr txt)]),
      (''parent_header'', JObj [(''msg_id'', JStr mid)])]"

section \<open>Payload flattening\<close>













section \<open>Event Relay: termination of the loop\<close>





section \<open>Event Relay: status events and unrecognized kinds\<close>



section \<open>Command Dispatcher: restart\<close>



section \<open>Lifecycle Controller: startup failures\<close>

lemma startup_failure_cases:
  assumes "\<not> jupyter_client_installed env \<or> \<not> ipykernel_installed env
           \<or> start_kernel env \<noteq> None
           \<or> (\<exists>n m. ready_within env 30 = Some (RuntimeError n m))"
  shows "\<exists>en ev. out (started_bridge (startup env)) = [startup_error en ev]
           \<and> exit_status (startup env) = Some 1"
  using assms
  by (auto simp: startup_def emit_def called_def init_def split: option.splits exn.splits)

text \<open>
  Claim C5. On a startup failure (a missing dependency, a kernel that fails to start,
  or a readiness timeout, which the kernel library raises as a RuntimeError) the
  program emits exactly one Response, an error; it emits no ready Response and never
  reaches the ready state; and the process exits with a status that is not zero.
\<close>

theorem startup_failure_emits_one_error:
  "\<not> jupyter_client_installed env \<or> \<not> ipykernel_installed env
     \<or> start_kernel env \<noteq> None
     \<or> (\<exists>n m. ready_within env 30 = Some (RuntimeError n m)) \<longrightarrow>
   (\<exists>r. out (started_bridge (startup env)) = [r]
        \<and> py_get r ''type'' JNull = Inr (JStr ''error'')
        \<and> py_get r ''type'' JNull \<noteq> Inr (JStr ''ready''))
   \<and> (\<exists>n. exit_status (startup env) = Some n \<and> n \<noteq> 0)
   \<and> (\<forall>s. startup env \<noteq> Ready s)"
proof
  assume a: "\<not> jupyter_client_installed env \<or> \<not> ipykernel_installed env
     \<or> start_kernel env \<noteq> None
     \<or> (\<exists>n m. ready_within env 30 = Some (RuntimeError n m))"
  from startup_failure_cases[OF a] obtain en ev
    where o: "out (started_bridge (startup env)) = [startup_error en ev]"
      and x: "exit_status (startup env) = Some 1" by blast
  have "py_get (startup_error en ev) ''type'' JNull = Inr (JStr ''error'')"
    by (simp add: startup_error_def dict_get_def)
  moreover have "\<forall>s. startup env \<noteq> Ready s" using x by auto
  ultimately show "(\<exists>r. out (started_bridge (startup env)) = [r]
        \<and> py_get r ''type'' JNull = Inr (JStr ''error'')
        \<and> py_get r ''type'' JNull \<noteq> Inr (JStr ''ready''))
   \<and> (\<exists>n. exit_status (startup env) = Some n \<and> n \<noteq> 0)
   \<and> (\<forall>s. startup env \<noteq> Ready s)"
    using o x by simp
qed

theorem startup_failure_emits_one_error_witness:
  "out (started_bridge (startup (env_ok\<lparr>jupyter_client_installed := False\<rparr>)))
     = [JObj [(''type'', JStr ''error''), (''ename'', JStr ''ImportError''),
              (''evalue'', JStr ''jupyter_client not installed. Run: pip install jupyter ipykernel''),
              (''traceback'', JList [])]]
   \<and> exit_status (startup (env_ok\<lparr>jupyter_client_installed := False\<rparr>)) = Some 1
   \<and> (\<exists>r. out (started_bridge (startup (env_ok\<lparr>ready_within := (\<lambda>t. Some (RuntimeError ''RuntimeError'' ''timeout''))\<rparr>))) = [r])"
proof -
  have 1: "out (started_bridge (startup (env_ok\<lparr>jupyter_client_installed := False\<rparr>)))
     = [JObj [(''type'', JStr ''error''), (''ename'', JStr ''ImportError''),
              (''evalue'', JStr ''jupyter_client not installed. Run: pip install jupyter ipykernel''),
              (''traceback'', JList [])]]"
    by (simp add: startup_def env_ok_def emit_def init_def startup_error_def)
  have 2: "exit_status (startup (env_ok\<lparr>jupyter_client_installed := False\<rparr>)) = Some 1"
    using startup_failure_emits_one_error[of "env_ok\<lparr>jupyter_client_installed := False\<rparr>"]
    by (simp add: env_ok_def startup_def)
  have 3: "\<exists>r. out (started_bridge (startup (env_ok\<lparr>ready_within := (\<lambda>t. Some (RuntimeError ''RuntimeError'' ''timeout''))\<rparr>))) = [r]"
    using startup_failure_emits_one_error[of "env_ok\<lparr>ready_within := (\<lambda>t. Some (RuntimeError ''RuntimeError'' ''timeout''))\<rparr>"]
    by (simp add: env_ok_def) blast
  from 1 2 3 show ?thesis by blast
qed

section \<open>Command Dispatcher: lines that are ignored, and lines that are not\<close>

lemma strip_examples:
  \<open>strip (''5\<newline>'') = ''5''\<close>
  \<open>strip (''{"id":"r1","action":"execute","code":"1+1"}\<newline>'') = ''{"id":"r1","action":"execute","code":"1+1"}''\<close>
  \<open>strip (''{"action":"execute","code":"1+1"}\<newline>'') = ''{"action":"execute","code":"1+1"}''\<close>
  \<open>strip (''{"id":"r2","action":"bogus"}\<newline>'') = ''{"id":"r2","action":"bogus"}''\<close>
  \<open>strip ''   '' = []\<close>
  by (simp_all add: strip_def isspace_def)

lemma ignored_line_is_skipped:
  assumes "strip line = [] \<or> loads (strip line) = None
           \<or> (\<exists>req. loads (strip line) = Some (JObj req)
                \<and> dict_get req ''action'' JNull \<notin>
                     {JStr ''execute'', JStr ''interrupt'', JStr ''restart'', JStr ''shutdown''})"
  shows "read_loop loads ((line, k) # rest) s = read_loop loads rest s"
  using assms by (auto simp: read_line_def dispatch_def)

lemma non_object_line_escapes:
  assumes "strip line \<noteq> []" and "loads (strip line) = Some req" and "\<forall>d. req \<noteq> JObj d"
  shows "read_loop loads ((line, k) # rest) s = Escaped AttributeError s"
  using assms by (cases req) (simp_all add: read_line_def dispatch_def)

lemma loads_5: \<open>loads_example ''5'' = Some (JInt 5)\<close>
  by (simp add: loads_example_def)

lemma loads_r1: \<open>loads_example ''{"id":"r1","action":"execute","code":"1+1"}'' =
   Some (JObj [(''id'', JStr ''r1''), (''action'', JStr ''execute''), (''code'', JStr ''1+1'')])\<close>
  by (simp add: loads_example_def)

lemma step5: \<open>read_line loads_example k ''5\<newline>'' s = Uncaught AttributeError s\<close>
  by (simp add: read_line_def strip_examples loads_5 dispatch_def)

lemma step_r1: \<open>read_line loads_example (kernel_ok ''m1'') ''{"id":"r1","action":"execute","code":"1+1"}\<newline>'' s
   = Continue (register_msg ''m1'' (JStr ''r1'') (called (Execute (JStr ''1+1'')) s))\<close>
  by (simp add: read_line_def strip_examples loads_r1 dispatch_def dict_get_def kernel_ok_def)

text \<open>
  Claim C3 fails on a line that parses to something that is not an object. A blank
  line, a line that does not parse and an object with a missing or unrecognized action
  are skipped (\<open>ignored_line_is_skipped\<close>). But on the line \<^verbatim>\<open>5\<close>, which parses,
  \<^verbatim>\<open>req.get("id")\<close> raises AttributeError, which nothing in the loop catches
  (\<open>non_object_line_escapes\<close>): the read loop is left, the \<^verbatim>\<open>finally\<close> block sets
  the stop event and shuts the kernel down, the main thread ends with the exception,
  and the execute request on the next line, which alone is dispatched and registered,
  is never read.
\<close>

theorem non_object_line_ends_read_loop:
  \<open>read_loop loads_example
      [(''5\<newline>'', kernel_ok ''m1''),
       (''{"id":"r1","action":"execute","code":"1+1"}\<newline>'', kernel_ok ''m1'')] init
     = Escaped AttributeError init
   \<and> run loads_example
      [Stdin ''5\<newline>'' (kernel_ok ''m1''),
       Stdin ''{"id":"r1","action":"execute","code":"1+1"}\<newline>'' (kernel_ok ''m1'')]
      (running init)
     = \<lparr>shared = init\<lparr>calls := [StopChannels, ShutdownKernel]\<rparr>, stop_event = True,
        main_thread = Raised AttributeError, iopub_thread = Alive\<rparr>
   \<and> read_loop loads_example
      [(''{"id":"r1","action":"execute","code":"1+1"}\<newline>'', kernel_ok ''m1'')] init
     = EndOfInput (init\<lparr>msg_map := [''m1'' \<mapsto> JStr ''r1''], calls := [Execute (JStr ''1+1'')]\<rparr>)\<close>
proof -
  have 1: \<open>read_loop loads_example
      [(''5\<newline>'', kernel_ok ''m1''),
       (''{"id":"r1","action":"execute","code":"1+1"}\<newline>'', kernel_ok ''m1'')] init
     = Escaped AttributeError init\<close>
    by (simp add: step5)
  have 2: \<open>run loads_example
      [Stdin ''5\<newline>'' (kernel_ok ''m1''),
       Stdin ''{"id":"r1","action":"execute","code":"1+1"}\<newline>'' (kernel_ok ''m1'')]
      (running init)
     = \<lparr>shared = init\<lparr>calls := [StopChannels, ShutdownKernel]\<rparr>, stop_event = True,
        main_thread = Raised AttributeError, iopub_thread = Alive\<rparr>\<close>
    by (simp add: step5 running_def leave_loop_def teardown_def called_def kernel_ok_def init_def)
  have 3: \<open>read_loop loads_example
      [(''{"id":"r1","action":"execute","code":"1+1"}\<newline>'', kernel_ok ''m1'')] init
     = EndOfInput (init\<lparr>msg_map := [''m1'' \<mapsto> JStr ''r1''], calls := [Execute (JStr ''1+1'')]\<rparr>)\<close>
    by (simp add: step_r1 register_msg_def called_def init_def)
  from 1 2 3 show ?thesis by blast
qed

section \<open>Where the ids of the Responses come from\<close>

lemma get_req_id_from_table:
  "get_req_id tbl msg = Inr rid \<Longrightarrow> rid = JNull \<or> rid \<in> ran tbl"
  by (auto simp: get_req_id_def ran_def split: sum.splits if_splits json.splits option.splits)

lemma dict_get_id: "dict_get ((''id'', v) # d) ''id'' dflt = v"
  by (simp add: dict_get_def)

lemma relay_event_id:
  assumes "relay_event tbl msg = Inr (Some r)"
  shows "\<exists>rid. get_req_id tbl msg = Inr rid \<and> py_get r ''id'' JNull = Inr rid"
proof (cases "get_req_id tbl msg")
  case (Inl e)
  with assms show ?thesis by (simp add: relay_event_def Let_def)
next
  case (Inr rid)
  let ?t = "dict_get msg ''msg_type'' (JStr '''')"
  consider (stream) "?t = JStr ''stream''"
    | (result) "?t = JStr ''execute_result''"
    | (display) "?t = JStr ''display_data''"
    | (error) "?t = JStr ''error''"
    | (status) "?t = JStr ''status''"
    | (other) "?t \<notin> {JStr ''stream'', JStr ''execute_result'', JStr ''display_data'',
                      JStr ''error'', JStr ''status''}"
    by blast
  then have "py_get r ''id'' JNull = Inr rid"
  proof cases
    case stream
    with assms Inr show ?thesis
      by (auto simp: relay_event_def Let_def dict_get_id split: sum.splits)
  next
    case result
    with assms Inr show ?thesis
      by (auto simp: relay_event_def Let_def dict_get_id split: sum.splits)
  next
    case display
    with assms Inr show ?thesis
      by (auto simp: relay_event_def Let_def dict_get_id split: sum.splits)
  next
    case error
    with assms Inr show ?thesis
      by (auto simp: relay_event_def Let_def dict_get_id split: sum.splits)
  next
    case status
    with assms Inr show ?thesis
      by (auto simp: relay_event_def Let_def dict_get_id split: sum.splits if_splits)
  next
    case other
    with assms Inr show ?thesis
      by (simp add: relay_event_def Let_def)
  qed
  with Inr show ?thesis by simp
qed

lemma iopub_cycle_out:
  "out (bridge_of (iopub_cycle stop p s)) = out s @
     (case p of
        PollRaised \<Rightarrow> []
      | Received msg \<Rightarrow>
          if stop then []
          else (case relay_event (msg_map s) msg of
                  Inl e \<Rightarrow> []
                | Inr None \<Rightarrow> []
                | Inr (Some r) \<Rightarrow> [r]))"
  by (simp add: iopub_cycle_def emit_def split: poll.splits sum.splits option.splits)


lemma dispatch_out:
  "\<exists>rs. out (after (dispatch k req s)) = out s @ rs \<and> length rs \<le> 1
     \<and> (\<forall>r \<in> set rs. py_get r ''id'' JNull = py_get req ''id'' JNull)"
proof (cases req)
  case (JObj d)
  then show ?thesis
    by (simp add: dispatch_def emit_def called_def register_msg_def error_response_def
          dict_get_def split: sum.splits option.splits)
qed (simp_all add: dispatch_def)















text \<open>
  The two assumptions on the kernel's message ids are needed: a parent id that is the
  empty string is falsy and is not looked up, and registering a message id again
  overwrites its entry.
\<close>

lemma empty_parent_id_is_unresolved:
  "py_get (dict_get msg ''parent_header'' (JObj [])) ''msg_id'' JNull = Inr (JStr []) \<Longrightarrow>
     get_req_id tbl msg = Inr JNull"
  by (simp add: get_req_id_def)

lemma register_msg_overwrites:
  "msg_map (register_msg mid r2 (register_msg mid r1 s)) mid = Some r2"
  by (simp add: register_msg_def)

section \<open>Correlation of kernel events with execute requests\<close>





section \<open>Ids of the Responses of the dispatcher\<close>

text \<open>
  Claim C2 as stated fails: the Response to a restart request carries the id of the
  request, \<open>r1\<close>, while the correlation table is empty, so that no lookup can have
  returned it.
\<close>

theorem restart_response_id_not_from_table:
  "out (after (dispatch (kernel_ok ''m1'')
                 (JObj [(''id'', JStr ''r1''), (''action'', JStr ''restart'')]) init))
     = [JObj [(''id'', JStr ''r1''), (''type'', JStr ''status''), (''state'', JStr ''restarted'')]]
   \<and> ran (msg_map init) = {}"
  by (simp add: dispatch_def dict_get_def kernel_ok_def emit_def called_def init_def)

text \<open>
  Claim C2, amended. A relay cycle adds to the outbound stream at most the one Response
  built for the received event, and the id of that Response is the result of the
  lookup \<^verbatim>\<open>get_req_id\<close> on the event: \<open>null\<close> or a request id stored in the
  correlation table. A dispatch adds at most one Response (the error of an interrupt
  or a restart, or the status \<open>restarted\<close>), and its id is the \<open>id\<close> field of the
  request being dispatched, \<open>null\<close> when the request has none.
\<close>

theorem response_ids_from_lookup_or_request:
  "out (bridge_of (iopub_cycle stop p s)) = out s @
     (case p of
        PollRaised \<Rightarrow> []
      | Received msg \<Rightarrow>
          if stop then []
          else (case relay_event (msg_map s) msg of
                  Inl e \<Rightarrow> []
                | Inr None \<Rightarrow> []
                | Inr (Some r) \<Rightarrow> [r]))
   \<and> (\<forall>r. relay_event (msg_map s) msg = Inr (Some r) \<longrightarrow>
         (\<exists>rid. get_req_id (msg_map s) msg = Inr rid \<and> py_get r ''id'' JNull = Inr rid
            \<and> (rid = JNull \<or> rid \<in> ran (msg_map s))))
   \<and> (\<exists>rs. out (after (dispatch k req s)) = out s @ rs \<and> length rs \<le> 1
         \<and> (\<forall>r \<in> set rs. py_get r ''id'' JNull = py_get req ''id'' JNull))"
proof -
  have "\<forall>r. relay_event (msg_map s) msg = Inr (Some r) \<longrightarrow>
         (\<exists>rid. get_req_id (msg_map s) msg = Inr rid \<and> py_get r ''id'' JNull = Inr rid
            \<and> (rid = JNull \<or> rid \<in> ran (msg_map s)))"
    using relay_event_id get_req_id_from_table by blast
  with iopub_cycle_out[of stop p s] dispatch_out[of k req s] show ?thesis by blast
qed

theorem response_ids_from_lookup_or_request_witness:
  "relay_event (msg_map (register_msg ''m1'' (JStr ''r1'') init)) (stream_event ''m1'' ''hi'')
     = Inr (Some (JObj [(''id'', JStr ''r1''), (''type'', JStr ''stream''),
                        (''name'', JStr ''stdout''), (''text'', JStr ''hi'')]))
   \<and> (\<exists>rid. get_req_id (msg_map (register_msg ''m1'' (JStr ''r1'') init))
                (stream_event ''m1'' ''hi'') = Inr rid
        \<and> rid = JStr ''r1'' \<and> rid \<in> ran (msg_map (register_msg ''m1'' (JStr ''r1'') init)))"
proof -
  let ?s = "register_msg ''m1'' (JStr ''r1'') init"
  let ?r = "JObj [(''id'', JStr ''r1''), (''type'', JStr ''stream''),
                  (''name'', JStr ''stdout''), (''text'', JStr ''hi'')]"
  have g: "get_req_id (msg_map ?s) (stream_event ''m1'' ''hi'') = Inr (JStr ''r1'')"
    by (simp add: get_req_id_def stream_event_def dict_get_def register_msg_def init_def)
  have re: "relay_event (msg_map ?s) (stream_event ''m1'' ''hi'') = Inr (Some ?r)"
    using g by (simp add: relay_event_def Let_def stream_event_def dict_get_def)
  from response_ids_from_lookup_or_request
         [of False PollRaised ?s "stream_event ''m1'' ''hi''" "kernel_ok ''m1''" JNull] re
  have "\<exists>rid. get_req_id (msg_map ?s) (stream_event ''m1'' ''hi'') = Inr rid
          \<and> py_get ?r ''id'' JNull = Inr rid \<and> (rid = JNull \<or> rid \<in> ran (msg_map ?s))"
    by blast
  then have "\<exists>rid. get_req_id (msg_map ?s) (stream_event ''m1'' ''hi'') = Inr rid
          \<and> rid = JStr ''r1'' \<and> rid \<in> ran (msg_map ?s)"
    using g by auto
  with re show ?thesis by blast
qed

end
